theory Spec2Isabelle
  imports Main "HOL-Library.Word"
begin

section \<open>The key-value store service (kv-service/main.py, kv-service/models.py)\<close>

text \<open>
  The service keeps one module-level dictionary \<^verbatim>\<open>storage: Dict[str, Any]\<close> and four
  request handlers that read or update it inside \<^verbatim>\<open>with storage_lock\<close>. The handlers
  are modelled as functions from the dictionary before the call to the dictionary after
  it and the handler's outcome: the dictionary it returns, or the exception it raises.

  Calls that neither read nor change the dictionary and do not decide the outcome are
  left out: \<^verbatim>\<open>logger.info\<close>, \<^verbatim>\<open>logger.warning\<close> and the \<^verbatim>\<open>time.time()\<close> pair
  that only feeds a log line. The lock is a \<^verbatim>\<open>threading.RLock\<close>, whose acquisition
  does not raise; one handler call is therefore one step on the dictionary.
\<close>

subsection \<open>Values\<close>

text \<open>
  \<^verbatim>\<open>ValueModel.value\<close> has type \<^verbatim>\<open>Any\<close>. The values that matter are the ones a JSON
  document decodes to (\<^verbatim>\<open>None\<close>, \<^verbatim>\<open>bool\<close>, \<^verbatim>\<open>int\<close>, \<^verbatim>\<open>float\<close>, \<^verbatim>\<open>str\<close>,
  \<^verbatim>\<open>list\<close>, \<^verbatim>\<open>dict\<close> with string keys), and some object that \<^verbatim>\<open>json.dumps\<close>
  has no encoder for (the \<^verbatim>\<open>lambda\<close> of the repository's test). Python integers
  are unbounded. A float is carried as the 64 bits of its IEEE-754 double; the service
  never computes with it. A dictionary is the list of its items in insertion order.
  A value is a tree, so it has no circular reference.
\<close>

datatype py_value =
    PNone
  | PBool bool
  | PInt int
  | PFloat "64 word"
  | PStr string
  | PList "py_value list"
  | PDict "(string \<times> py_value) list"
  | PObject nat

subsection \<open>json.dumps\<close>

text \<open>
  The validator of \<^verbatim>\<open>ValueModel\<close> calls \<^verbatim>\<open>json.dumps(v)\<close> and looks only at whether
  it returns or raises. Two limits of the interpreter decide that together with the
  value; the repository sets neither.
  \<^item> \<open>int_max_str_digits\<close> is \<^verbatim>\<open>sys.int_info.default_max_str_digits\<close>, 4300: the
    decimal text of an integer with more digits is refused with \<^verbatim>\<open>ValueError\<close>.
  \<^item> The recursion budget \<open>b\<close> is the number of nested containers the encoder can
    still enter where the validator runs, before the interpreter's recursion limit is
    reached and \<^verbatim>\<open>RecursionError\<close> is raised. It depends on the frames already on the
    stack, so it is a parameter of the model.
\<close>

definition int_max_str_digits :: nat where
  "int_max_str_digits = 4300"

datatype py_exception = TypeError | ValueError | RecursionError

datatype dumps_outcome = Dumped | Raised py_exception

text \<open>The number of digits of the decimal text of a natural number.\<close>

fun decimal_digits :: "nat \<Rightarrow> nat" where
  "decimal_digits n = (if n < 10 then 1 else Suc (decimal_digits (n div 10)))"

declare decimal_digits.simps [simp del]

text \<open>
  \<^verbatim>\<open>int.__repr__\<close> raises \<^verbatim>\<open>ValueError\<close> when the integer, without its sign, has more
  digits than the limit.
\<close>

definition int_repr_raises :: "int \<Rightarrow> bool" where
  "int_repr_raises n = (int_max_str_digits < decimal_digits (nat \<bar>n\<bar>))"

text \<open>
  The encoder writes the items of a list or dictionary in order; the first item that
  raises ends the call with its exception.
\<close>

fun first_raised :: "dumps_outcome list \<Rightarrow> dumps_outcome" where
  "first_raised [] = Dumped"
| "first_raised (Dumped # rs) = first_raised rs"
| "first_raised (Raised e # rs) = Raised e"

text \<open>
  \<open>json_dumps b v\<close> is the outcome of encoding \<open>v\<close> when \<open>b\<close> more containers can be
  entered. Entering a list or a dictionary, empty or not, takes one; an object without
  an encoder raises \<^verbatim>\<open>TypeError\<close>; with the default \<^verbatim>\<open>allow_nan=True\<close> every float is
  written; the keys of a dictionary are strings and are always written.
\<close>

fun json_dumps :: "nat \<Rightarrow> py_value \<Rightarrow> dumps_outcome" where
  "json_dumps b PNone = Dumped"
| "json_dumps b (PBool x) = Dumped"
| "json_dumps b (PInt n) = (if int_repr_raises n then Raised ValueError else Dumped)"
| "json_dumps b (PFloat x) = Dumped"
| "json_dumps b (PStr s) = Dumped"
| "json_dumps b (PList xs) =
     (if b = 0 then Raised RecursionError
      else first_raised (map (json_dumps (b - 1)) xs))"
| "json_dumps b (PDict kvs) =
     (if b = 0 then Raised RecursionError
      else first_raised (map (\<lambda>kv. json_dumps (b - 1) (snd kv)) kvs))"
| "json_dumps b (PObject n) = Raised TypeError"

text \<open>A value is JSON-serializable, for the service, when \<^verbatim>\<open>json.dumps\<close> returns on it.\<close>

definition json_serializable :: "nat \<Rightarrow> py_value \<Rightarrow> bool" where
  "json_serializable b v = (json_dumps b v = Dumped)"

text \<open>Lists nested \<open>d + 1\<close> deep, the innermost one empty.\<close>

fun nest :: "nat \<Rightarrow> py_value" where
  "nest 0 = PList []"
| "nest (Suc d) = PList [nest d]"

subsection \<open>models.py\<close>

text \<open>
  \<^verbatim>\<open>class ValueModel(BaseModel): key: str; value: Any = Field(...)\<close>. The fields are
  named \<open>model_key\<close> and \<open>model_value\<close> here, so that \<open>key\<close> stays free for the
  handlers' parameter. The field \<^verbatim>\<open>key\<close> is declared as a plain \<^verbatim>\<open>str\<close>, with no
  length constraint.
\<close>

record ValueModel =
  model_key :: string
  model_value :: py_value

text \<open>
  The field validator:
  \<^verbatim>\<open>try: json.dumps(v); return v
  except (TypeError, ValueError) as e: raise ValueError(...)\<close>.
  A \<^verbatim>\<open>TypeError\<close> or \<^verbatim>\<open>ValueError\<close> of \<^verbatim>\<open>json.dumps\<close> becomes the validator's
  \<^verbatim>\<open>ValueError\<close>; any other exception, here \<^verbatim>\<open>RecursionError\<close>, is not caught and
  leaves the validator as it is.
\<close>

definition validate_json_serializable :: "nat \<Rightarrow> py_value \<Rightarrow> py_exception + py_value" where
  "validate_json_serializable b v =
     (case json_dumps b v of
        Dumped \<Rightarrow> Inr v
      | Raised e \<Rightarrow>
          (if e = TypeError \<or> e = ValueError then Inl ValueError else Inl e))"

text \<open>
  Constructing a \<^verbatim>\<open>ValueModel(key=..., value=...)\<close> runs the validator on the value;
  what the validator raises, the construction raises.
\<close>

definition ValueModel_init :: "nat \<Rightarrow> string \<Rightarrow> py_value \<Rightarrow> py_exception + ValueModel" where
  "ValueModel_init b k v =
     (case validate_json_serializable b v of
        Inl e \<Rightarrow> Inl e
      | Inr v' \<Rightarrow> Inr \<lparr>model_key = k, model_value = v'\<rparr>)"

text \<open>The status constants of \<^verbatim>\<open>fastapi.status\<close> that the service uses.\<close>

definition HTTP_200_OK :: nat where
  "HTTP_200_OK = 200"

definition HTTP_201_CREATED :: nat where
  "HTTP_201_CREATED = 201"

definition HTTP_400_BAD_REQUEST :: nat where
  "HTTP_400_BAD_REQUEST = 400"

definition HTTP_404_NOT_FOUND :: nat where
  "HTTP_404_NOT_FOUND = 404"

definition HTTP_422_UNPROCESSABLE_ENTITY :: nat where
  "HTTP_422_UNPROCESSABLE_ENTITY = 422"

definition HTTP_500_INTERNAL_SERVER_ERROR :: nat where
  "HTTP_500_INTERNAL_SERVER_ERROR = 500"

text \<open>
  The four exception classes, each a subclass of \<^verbatim>\<open>HTTPException\<close>; a constructor
  carries the arguments of \<^verbatim>\<open>__init__\<close>, and \<open>status_code\<close> and \<open>detail\<close> are what
  \<^verbatim>\<open>__init__\<close> passes to \<^verbatim>\<open>super().__init__\<close>.
\<close>

datatype http_exception =
    KeyNotFoundError string
  | KeyMismatchError string string
  | ValidationError string
  | InternalServerError string

fun status_code :: "http_exception \<Rightarrow> nat" where
  "status_code (KeyNotFoundError key) = HTTP_404_NOT_FOUND"
| "status_code (KeyMismatchError path_key body_key) = HTTP_400_BAD_REQUEST"
| "status_code (ValidationError message) = HTTP_422_UNPROCESSABLE_ENTITY"
| "status_code (InternalServerError message) = HTTP_500_INTERNAL_SERVER_ERROR"

text \<open>The apostrophe of the f-strings is written \<open>CHR 0x27\<close>.\<close>

definition quoted :: "string \<Rightarrow> string" where
  "quoted s = [CHR 0x27] @ s @ [CHR 0x27]"

definition error_detail :: "string \<Rightarrow> py_value" where
  "error_detail message = PDict [(''success'', PBool False), (''error'', PStr message)]"

fun detail :: "http_exception \<Rightarrow> py_value" where
  "detail (KeyNotFoundError key) =
     error_detail (''Key '' @ quoted key @ '' not found'')"
| "detail (KeyMismatchError path_key body_key) =
     error_detail (''Key in path '' @ quoted path_key @
                   '' does not match key in body '' @ quoted body_key)"
| "detail (ValidationError message) =
     error_detail (''Validation error: '' @ message)"
| "detail (InternalServerError message) =
     error_detail message"

subsection \<open>main.py: the handlers\<close>

type_synonym storage = "string \<rightharpoonup> py_value"

text \<open>
  A handler's outcome is \<open>Inl\<close> of the exception it raises or \<open>Inr\<close> of the dictionary
  it returns.

  Each handler wraps its body in \<^verbatim>\<open>try\<close>, re-raises its own exception class
  unchanged and turns any other \<^verbatim>\<open>Exception\<close> into \<^verbatim>\<open>InternalServerError\<close>.
  Nothing in a handler's body raises but the one explicit \<^verbatim>\<open>raise\<close>: a string
  comparison, a dictionary membership test, lookup of a key just found present,
  assignment and deletion of a key just found present. So the catch-all clause has no
  branch in the model.
\<close>

type_synonym outcome = "http_exception + py_value"

definition store_key :: "storage \<Rightarrow> string \<Rightarrow> ValueModel \<Rightarrow> storage \<times> outcome" where
  "store_key storage key data =
     (if key \<noteq> model_key data
      then (storage, Inl (KeyMismatchError key (model_key data)))
      else (storage(key \<mapsto> model_value data),
            Inr (PDict [(''success'', PBool True),
                        (''message'', PStr ''Value stored successfully'')])))"

definition update_key :: "storage \<Rightarrow> string \<Rightarrow> ValueModel \<Rightarrow> storage \<times> outcome" where
  "update_key storage key data =
     (if key \<noteq> model_key data
      then (storage, Inl (KeyMismatchError key (model_key data)))
      else (storage(key \<mapsto> model_value data),
            Inr (PDict [(''success'', PBool True),
                        (''message'', PStr ''Value stored successfully'')])))"

text \<open>
  \<^verbatim>\<open>if key not in storage: raise KeyNotFoundError(key)\<close> followed by
  \<^verbatim>\<open>value = storage[key]\<close>, both under the lock: one lookup, \<open>None\<close> when the key
  is not in the dictionary.
\<close>

definition get_key :: "storage \<Rightarrow> string \<Rightarrow> storage \<times> outcome" where
  "get_key storage key =
     (case storage key of
        None \<Rightarrow> (storage, Inl (KeyNotFoundError key))
      | Some v \<Rightarrow>
          (storage,
           Inr (PDict [(''success'', PBool True), (''key'', PStr key), (''value'', v)])))"

definition delete_key :: "storage \<Rightarrow> string \<Rightarrow> storage \<times> outcome" where
  "delete_key storage key =
     (case storage key of
        None \<Rightarrow> (storage, Inl (KeyNotFoundError key))
      | Some v \<Rightarrow>
          (storage(key := None),
           Inr (PDict [(''success'', PBool True),
                       (''message'', PStr ''Key deleted successfully'')])))"

subsection \<open>main.py: the routes\<close>

text \<open>
  The decorators give each handler its success status: \<^verbatim>\<open>@app.post(...,
  status_code=status.HTTP_201_CREATED)\<close> for \<^verbatim>\<open>store_key\<close>, and the framework's default
  200 for \<^verbatim>\<open>@app.put\<close>, \<^verbatim>\<open>@app.get\<close> and \<^verbatim>\<open>@app.delete\<close>. The service registers no
  exception handler of its own, so a raised \<^verbatim>\<open>HTTPException\<close> is answered by FastAPI's
  default one: the exception's status code and the body \<^verbatim>\<open>{"detail": exc.detail}\<close>.
  The repository's tests read the error bodies that way
  (\<^verbatim>\<open>response.json()["detail"]["success"]\<close>, \<^verbatim>\<open>response.json()["detail"]["error"]\<close>).
  Matching of the request path and decoding of the request body are the framework's and
  are not modelled.
\<close>

record http_response =
  response_status :: nat
  response_body :: py_value

definition render :: "nat \<Rightarrow> outcome \<Rightarrow> http_response" where
  "render success_status r =
     (case r of
        Inr content \<Rightarrow> \<lparr>response_status = success_status, response_body = content\<rparr>
      | Inl exc \<Rightarrow> \<lparr>response_status = status_code exc,
                   response_body = PDict [(''detail'', detail exc)]\<rparr>)"

definition post_keys :: "storage \<Rightarrow> string \<Rightarrow> ValueModel \<Rightarrow> storage \<times> http_response" where
  "post_keys storage key data = apsnd (render HTTP_201_CREATED) (store_key storage key data)"

definition put_keys :: "storage \<Rightarrow> string \<Rightarrow> ValueModel \<Rightarrow> storage \<times> http_response" where
  "put_keys storage key data = apsnd (render HTTP_200_OK) (update_key storage key data)"

definition get_keys :: "storage \<Rightarrow> string \<Rightarrow> storage \<times> http_response" where
  "get_keys storage key = apsnd (render HTTP_200_OK) (get_key storage key)"

definition delete_keys :: "storage \<Rightarrow> string \<Rightarrow> storage \<times> http_response" where
  "delete_keys storage key = apsnd (render HTTP_200_OK) (delete_key storage key)"

subsection \<open>The error body as the specification words it\<close>

text \<open>
  The specification gives every error body the shape
  \<^verbatim>\<open>{"success": false, "error": <string>}\<close>. The predicate follows those words; it is
  compared below with the bodies the routes produce.
\<close>

definition flat_error_body :: "py_value \<Rightarrow> bool" where
  "flat_error_body body =
     (case body of
        PDict [(k1, PBool b), (k2, PStr message)] \<Rightarrow>
          k1 = ''success'' \<and> \<not> b \<and> k2 = ''error''
      | _ \<Rightarrow> False)"

section \<open>Properties\<close>

subsection \<open>The request model\<close>

text \<open>
  The outcomes of the validator. A value holding an object that \<^verbatim>\<open>json.dumps\<close> cannot
  encode is refused with \<^verbatim>\<open>ValueError\<close>, as in the repository's test of
  \<^verbatim>\<open>ValueModel(key="test", value=lambda x: x)\<close>. An integer is accepted exactly when
  it has at most 4300 digits, that is, when it lies strictly between \<open>- (10 ^ 4300)\<close>
  and \<open>10 ^ 4300\<close>; the others are refused with \<^verbatim>\<open>ValueError\<close>. Nesting deeper than
  the recursion budget raises \<^verbatim>\<open>RecursionError\<close>, which the validator does not catch.
\<close>

lemma decimal_digits_power: "decimal_digits (10 ^ m) = Suc m"
proof (induction m)
  case 0
  show ?case by (simp add: decimal_digits.simps)
next
  case (Suc m)
  have "\<not> (10::nat) ^ Suc m < 10" by simp
  then show ?case using Suc by (subst decimal_digits.simps) simp
qed

lemma decimal_digits_mono: "m \<le> n \<Longrightarrow> decimal_digits m \<le> decimal_digits n"
proof (induction n arbitrary: m rule: decimal_digits.induct)
  case (1 n)
  show ?case
  proof (cases "n < 10")
    case True
    with "1.prems" show ?thesis by (simp add: decimal_digits.simps)
  next
    case False
    show ?thesis
    proof (cases "m < 10")
      case True
      with False show ?thesis by (simp add: decimal_digits.simps [of m] decimal_digits.simps [of n])
    next
      case m: False
      from "1.prems" have "m div 10 \<le> n div 10" by (rule div_le_mono)
      with "1.IH" [OF False] have "decimal_digits (m div 10) \<le> decimal_digits (n div 10)" .
      with m False show ?thesis
        by (simp add: decimal_digits.simps [of m] decimal_digits.simps [of n])
    qed
  qed
qed

lemma decimal_digits_less_power: "n < 10 ^ Suc m \<Longrightarrow> decimal_digits n \<le> Suc m"
proof (induction m arbitrary: n)
  case 0
  then show ?case by (simp add: decimal_digits.simps)
next
  case (Suc m)
  show ?case
  proof (cases "n < 10")
    case True
    then show ?thesis by (simp add: decimal_digits.simps)
  next
    case False
    from Suc.prems have "n div 10 < 10 ^ Suc m" by (simp add: less_mult_imp_div_less)
    from Suc.IH [OF this] False show ?thesis by (simp add: decimal_digits.simps [of n])
  qed
qed

lemma int_repr_raises_iff: "int_repr_raises n \<longleftrightarrow> 10 ^ int_max_str_digits \<le> \<bar>n\<bar>"
proof
  assume r: "int_repr_raises n"
  show "10 ^ int_max_str_digits \<le> \<bar>n\<bar>"
  proof (rule ccontr)
    assume "\<not> 10 ^ int_max_str_digits \<le> \<bar>n\<bar>"
    then have "nat \<bar>n\<bar> < 10 ^ int_max_str_digits" by (simp add: nat_less_iff)
    moreover have "int_max_str_digits = Suc 4299" by (simp add: int_max_str_digits_def)
    ultimately have "decimal_digits (nat \<bar>n\<bar>) \<le> int_max_str_digits"
      using decimal_digits_less_power [of "nat \<bar>n\<bar>" 4299] by simp
    with r show False by (simp add: int_repr_raises_def)
  qed
next
  assume "10 ^ int_max_str_digits \<le> \<bar>n\<bar>"
  then have "(10::nat) ^ int_max_str_digits \<le> nat \<bar>n\<bar>" by (simp add: le_nat_iff)
  from decimal_digits_mono [OF this] show "int_repr_raises n"
    by (simp add: int_repr_raises_def decimal_digits_power)
qed

lemma json_dumps_nest: "json_dumps b (nest b) = Raised RecursionError"
  by (induction b) simp_all

lemma ValueModel_init_refuses_long_int:
  "ValueModel_init b k (PInt (10 ^ int_max_str_digits)) = Inl ValueError \<and>
   ValueModel_init b k (PInt (- (10 ^ int_max_str_digits))) = Inl ValueError"
  by (simp add: ValueModel_init_def validate_json_serializable_def int_repr_raises_iff)

lemma ValueModel_init_refuses_deep_nesting:
  "ValueModel_init b k (nest b) = Inl RecursionError"
  by (simp add: ValueModel_init_def validate_json_serializable_def json_dumps_nest)

lemma ValueModel_init_refuses_object:
  "ValueModel_init 100 ''test'' (PObject 0) = Inl ValueError \<and>
   ValueModel_init 100 ''test'' (PDict [(''a'', PList [PInt 1, PObject 0])]) = Inl ValueError \<and>
   ValueModel_init 2 ''test'' (PList [PList [PList []], PObject 0]) = Inl RecursionError \<and>
   ValueModel_init 100 ''test'' (PList [PInt 1, PInt 2, PStr ''three'']) =
     Inr \<lparr>model_key = ''test'', model_value = PList [PInt 1, PInt 2, PStr ''three'']\<rparr>"
  by (simp add: ValueModel_init_def validate_json_serializable_def int_repr_raises_def
      int_max_str_digits_def decimal_digits.simps)

subsection \<open>Round trip\<close>

text \<open>
  C1. For every non-empty key \<open>k\<close> and JSON-representable value \<open>v\<close> (one on which
  \<^verbatim>\<open>json.dumps\<close> returns, whatever the recursion budget \<open>b\<close>), the request model for
  \<open>(k, v)\<close> is accepted with the value unchanged, and a write of it through
  \<open>store_key\<close> or \<open>update_key\<close> with path key \<open>k\<close> followed by \<open>get_key k\<close> returns
  the success dictionary whose \<open>value\<close> is \<open>v\<close> itself, whatever the value's nesting.
\<close>

theorem put_get_roundtrip:
  assumes "k \<noteq> []" and "json_serializable b v"
  shows "ValueModel_init b k v = Inr \<lparr>model_key = k, model_value = v\<rparr> \<and>
         snd (get_key (fst (store_key s k \<lparr>model_key = k, model_value = v\<rparr>)) k) =
           Inr (PDict [(''success'', PBool True), (''key'', PStr k), (''value'', v)]) \<and>
         snd (get_key (fst (update_key s k \<lparr>model_key = k, model_value = v\<rparr>)) k) =
           Inr (PDict [(''success'', PBool True), (''key'', PStr k), (''value'', v)])"
  using assms
  by (simp add: json_serializable_def ValueModel_init_def validate_json_serializable_def
      store_key_def update_key_def get_key_def)

theorem put_get_roundtrip_witness:
  "''complex'' \<noteq> [] \<and>
   json_serializable 100
     (PDict [(''string'', PStr ''hello''), (''number'', PInt 42), (''boolean'', PBool True),
             (''null'', PNone), (''array'', PList [PInt 1, PInt 2, PInt 3]),
             (''nested'', PDict [(''a'', PInt 1), (''b'', PInt 2)])]) \<and>
   ValueModel_init 100 ''complex''
     (PDict [(''string'', PStr ''hello''), (''number'', PInt 42), (''boolean'', PBool True),
             (''null'', PNone), (''array'', PList [PInt 1, PInt 2, PInt 3]),
             (''nested'', PDict [(''a'', PInt 1), (''b'', PInt 2)])]) =
     Inr \<lparr>model_key = ''complex'',
          model_value =
            PDict [(''string'', PStr ''hello''), (''number'', PInt 42), (''boolean'', PBool True),
                   (''null'', PNone), (''array'', PList [PInt 1, PInt 2, PInt 3]),
                   (''nested'', PDict [(''a'', PInt 1), (''b'', PInt 2)])]\<rparr> \<and>
   snd (get_key (fst (store_key Map.empty ''complex''
          \<lparr>model_key = ''complex'',
           model_value =
             PDict [(''string'', PStr ''hello''), (''number'', PInt 42), (''boolean'', PBool True),
                    (''null'', PNone), (''array'', PList [PInt 1, PInt 2, PInt 3]),
                    (''nested'', PDict [(''a'', PInt 1), (''b'', PInt 2)])]\<rparr>)) ''complex'') =
     Inr (PDict [(''success'', PBool True), (''key'', PStr ''complex''),
                 (''value'',
                  PDict [(''string'', PStr ''hello''), (''number'', PInt 42),
                         (''boolean'', PBool True), (''null'', PNone),
                         (''array'', PList [PInt 1, PInt 2, PInt 3]),
                         (''nested'', PDict [(''a'', PInt 1), (''b'', PInt 2)])])])"
  using put_get_roundtrip [of "''complex''" 100
      "PDict [(''string'', PStr ''hello''), (''number'', PInt 42), (''boolean'', PBool True),
              (''null'', PNone), (''array'', PList [PInt 1, PInt 2, PInt 3]),
              (''nested'', PDict [(''a'', PInt 1), (''b'', PInt 2)])]" Map.empty]
  by (simp add: json_serializable_def int_repr_raises_def int_max_str_digits_def
      decimal_digits.simps)

subsection \<open>Overwrite\<close>

text \<open>
  C2. For every key \<open>k\<close> and values \<open>v1\<close>, \<open>v2\<close>, a write of \<open>v1\<close> to \<open>k\<close>, then a
  write of \<open>v2\<close> to \<open>k\<close>, then \<open>get_key k\<close> returns \<open>v2\<close>, for each choice of
  \<open>store_key\<close> or \<open>update_key\<close> for the two writes; the dictionary is then the
  original one with \<open>k\<close> bound to \<open>v2\<close>, so nothing of the first write is left.
\<close>

theorem put_overwrite:
  "get_key (fst (store_key (fst (store_key s k \<lparr>model_key = k, model_value = v1\<rparr>)) k
                  \<lparr>model_key = k, model_value = v2\<rparr>)) k =
     (s(k \<mapsto> v2), Inr (PDict [(''success'', PBool True), (''key'', PStr k), (''value'', v2)])) \<and>
   get_key (fst (update_key (fst (store_key s k \<lparr>model_key = k, model_value = v1\<rparr>)) k
                  \<lparr>model_key = k, model_value = v2\<rparr>)) k =
     (s(k \<mapsto> v2), Inr (PDict [(''success'', PBool True), (''key'', PStr k), (''value'', v2)])) \<and>
   get_key (fst (store_key (fst (update_key s k \<lparr>model_key = k, model_value = v1\<rparr>)) k
                  \<lparr>model_key = k, model_value = v2\<rparr>)) k =
     (s(k \<mapsto> v2), Inr (PDict [(''success'', PBool True), (''key'', PStr k), (''value'', v2)])) \<and>
   get_key (fst (update_key (fst (update_key s k \<lparr>model_key = k, model_value = v1\<rparr>)) k
                  \<lparr>model_key = k, model_value = v2\<rparr>)) k =
     (s(k \<mapsto> v2), Inr (PDict [(''success'', PBool True), (''key'', PStr k), (''value'', v2)]))"
  by (simp add: store_key_def update_key_def get_key_def)

subsection \<open>Delete\<close>

text \<open>
  C3. For every key \<open>k\<close>: when \<open>k\<close> is in the dictionary, \<open>delete_key k\<close> removes it
  and returns the success dictionary (status 200); when \<open>k\<close> is not in the dictionary,
  \<open>delete_key k\<close> raises \<open>KeyNotFoundError\<close> (status 404) and returns the dictionary
  as it was; and a second \<open>delete_key k\<close>, after either, raises \<open>KeyNotFoundError\<close> and
  changes nothing.
\<close>

theorem delete_key_cases:
  "(k \<in> dom s \<longrightarrow>
      delete_key s k =
        (s(k := None),
         Inr (PDict [(''success'', PBool True), (''message'', PStr ''Key deleted successfully'')])) \<and>
      k \<notin> dom (fst (delete_key s k)) \<and>
      response_status (snd (delete_keys s k)) = 200) \<and>
   (k \<notin> dom s \<longrightarrow>
      delete_key s k = (s, Inl (KeyNotFoundError k)) \<and>
      response_status (snd (delete_keys s k)) = 404) \<and>
   delete_key (fst (delete_key s k)) k = (fst (delete_key s k), Inl (KeyNotFoundError k))"
proof -
  have present: "delete_key s k =
      (s(k := None),
       Inr (PDict [(''success'', PBool True), (''message'', PStr ''Key deleted successfully'')]))"
    if "k \<in> dom s"
    using that by (auto simp add: delete_key_def)
  have absent: "delete_key s k = (s, Inl (KeyNotFoundError k))" if "k \<notin> dom s"
    using that by (simp add: delete_key_def domIff)
  have gone: "k \<notin> dom (fst (delete_key s k))"
    by (cases "s k") (simp_all add: delete_key_def domIff)
  have again: "delete_key t k = (t, Inl (KeyNotFoundError k))" if "k \<notin> dom t" for t
    using that by (simp add: delete_key_def domIff)
  show ?thesis
    using present absent gone again [OF gone]
    by (simp add: delete_keys_def render_def HTTP_200_OK_def HTTP_404_NOT_FOUND_def)
qed

theorem delete_key_cases_witness:
  "''testkey'' \<in> dom [''testkey'' \<mapsto> PStr ''testvalue''] \<and>
   delete_key [''testkey'' \<mapsto> PStr ''testvalue''] ''testkey'' =
     (Map.empty,
      Inr (PDict [(''success'', PBool True), (''message'', PStr ''Key deleted successfully'')])) \<and>
   ''nonexistent'' \<notin> dom (Map.empty :: storage) \<and>
   delete_key Map.empty ''nonexistent'' = (Map.empty, Inl (KeyNotFoundError ''nonexistent'')) \<and>
   response_status (snd (delete_keys Map.empty ''nonexistent'')) = 404"
  using delete_key_cases [of "''testkey''" "[''testkey'' \<mapsto> PStr ''testvalue'']"]
    delete_key_cases [of "''nonexistent''" Map.empty]
  by simp

subsection \<open>Key mismatch\<close>

text \<open>
  C4. For every write (\<open>store_key\<close> or \<open>update_key\<close>) whose path key differs from the
  body key, the handler raises \<open>KeyMismatchError\<close>, answered with status 400, and the
  dictionary after the call is the dictionary before it; so \<open>get_key\<close> on the path key
  and on the body key still raises \<open>KeyNotFoundError\<close> when that key was not in the
  dictionary before.
\<close>

theorem mismatch_rejected:
  assumes "key \<noteq> model_key data"
  shows "store_key s key data = (s, Inl (KeyMismatchError key (model_key data))) \<and>
         update_key s key data = (s, Inl (KeyMismatchError key (model_key data))) \<and>
         fst (post_keys s key data) = s \<and>
         response_status (snd (post_keys s key data)) = 400 \<and>
         fst (put_keys s key data) = s \<and>
         response_status (snd (put_keys s key data)) = 400 \<and>
         (key \<notin> dom s \<longrightarrow>
            snd (get_key (fst (store_key s key data)) key) = Inl (KeyNotFoundError key) \<and>
            snd (get_key (fst (update_key s key data)) key) = Inl (KeyNotFoundError key)) \<and>
         (model_key data \<notin> dom s \<longrightarrow>
            snd (get_key (fst (store_key s key data)) (model_key data)) =
              Inl (KeyNotFoundError (model_key data)) \<and>
            snd (get_key (fst (update_key s key data)) (model_key data)) =
              Inl (KeyNotFoundError (model_key data)))"
  using assms
  by (simp add: store_key_def update_key_def post_keys_def put_keys_def render_def
      get_key_def domIff HTTP_400_BAD_REQUEST_def)

theorem mismatch_rejected_witness:
  "''a'' \<noteq> model_key \<lparr>model_key = ''b'', model_value = PStr ''testvalue''\<rparr> \<and>
   ''a'' \<notin> dom (Map.empty :: storage) \<and> ''b'' \<notin> dom (Map.empty :: storage) \<and>
   store_key Map.empty ''a'' \<lparr>model_key = ''b'', model_value = PStr ''testvalue''\<rparr> =
     (Map.empty, Inl (KeyMismatchError ''a'' ''b'')) \<and>
   response_status
     (snd (post_keys Map.empty ''a'' \<lparr>model_key = ''b'', model_value = PStr ''testvalue''\<rparr>)) = 400 \<and>
   snd (get_key (fst (store_key Map.empty ''a''
          \<lparr>model_key = ''b'', model_value = PStr ''testvalue''\<rparr>)) ''a'') =
     Inl (KeyNotFoundError ''a'') \<and>
   snd (get_key (fst (store_key Map.empty ''a''
          \<lparr>model_key = ''b'', model_value = PStr ''testvalue''\<rparr>)) ''b'') =
     Inl (KeyNotFoundError ''b'')"
  using mismatch_rejected [of "''a''" "\<lparr>model_key = ''b'', model_value = PStr ''testvalue''\<rparr>"
      Map.empty]
  by (simp add: get_key_def)

subsection \<open>Error bodies\<close>

text \<open>
  C5, as the specification states it, fails: the body of an error response is not the
  flat dictionary \<^verbatim>\<open>{"success": false, "error": <string>}\<close>. For a key that is not
  stored, the body of the 404 response carries that dictionary under the key
  \<^verbatim>\<open>"detail"\<close>.
\<close>

theorem error_body_not_flat:
  "response_body (snd (get_keys Map.empty ''nonexistent'')) =
     PDict [(''detail'',
             PDict [(''success'', PBool False),
                    (''error'', PStr ''Key 'nonexistent' not found'')])] \<and>
   \<not> flat_error_body (response_body (snd (get_keys Map.empty ''nonexistent'')))"
  by (simp add: get_keys_def get_key_def render_def error_detail_def quoted_def
      flat_error_body_def)

text \<open>
  C5, amended. The \<open>detail\<close> of every exception of the service has the flat shape
  \<^verbatim>\<open>{"success": false, "error": <string>}\<close>, and the body of an error response is
  \<^verbatim>\<open>{"detail": <that dictionary>}\<close>: for a key that is not stored, \<open>get_keys\<close> and
  \<open>delete_keys\<close> answer 404 with the error string \<^verbatim>\<open>Key '<key>' not found\<close>; for a
  path key that differs from the body key, \<open>post_keys\<close> and \<open>put_keys\<close> answer 400 with
  the error string
  \<^verbatim>\<open>Key in path '<path_key>' does not match key in body '<body_key>'\<close>.
\<close>

theorem error_detail_shape:
  "flat_error_body (detail exc) \<and>
   (key \<notin> dom s \<longrightarrow>
      snd (get_keys s key) =
        \<lparr>response_status = 404,
         response_body =
           PDict [(''detail'',
                   PDict [(''success'', PBool False),
                          (''error'', PStr (''Key '' @ [CHR 0x27] @ key @ [CHR 0x27] @
                                            '' not found''))])]\<rparr> \<and>
      snd (delete_keys s key) = snd (get_keys s key)) \<and>
   (path_key \<noteq> model_key data \<longrightarrow>
      snd (post_keys s path_key data) =
        \<lparr>response_status = 400,
         response_body =
           PDict [(''detail'',
                   PDict [(''success'', PBool False),
                          (''error'', PStr (''Key in path '' @ [CHR 0x27] @ path_key @
                                            [CHR 0x27] @ '' does not match key in body '' @
                                            [CHR 0x27] @ model_key data @ [CHR 0x27]))])]\<rparr> \<and>
      snd (put_keys s path_key data) = snd (post_keys s path_key data))"
proof -
  have shape: "flat_error_body (detail exc)"
    by (cases exc) (simp_all add: flat_error_body_def error_detail_def)
  have not_found: "snd (get_keys s key) =
      \<lparr>response_status = 404,
       response_body =
         PDict [(''detail'',
                 PDict [(''success'', PBool False),
                        (''error'', PStr (''Key '' @ [CHR 0x27] @ key @ [CHR 0x27] @
                                          '' not found''))])]\<rparr> \<and>
      snd (delete_keys s key) = snd (get_keys s key)"
    if "key \<notin> dom s"
    using that
    by (simp add: get_keys_def delete_keys_def get_key_def delete_key_def render_def
        error_detail_def quoted_def domIff HTTP_404_NOT_FOUND_def)
  have mismatch: "snd (post_keys s path_key data) =
      \<lparr>response_status = 400,
       response_body =
         PDict [(''detail'',
                 PDict [(''success'', PBool False),
                        (''error'', PStr (''Key in path '' @ [CHR 0x27] @ path_key @
                                          [CHR 0x27] @ '' does not match key in body '' @
                                          [CHR 0x27] @ model_key data @ [CHR 0x27]))])]\<rparr> \<and>
      snd (put_keys s path_key data) = snd (post_keys s path_key data)"
    if "path_key \<noteq> model_key data"
    using that
    by (simp add: post_keys_def put_keys_def store_key_def update_key_def render_def
        error_detail_def quoted_def HTTP_400_BAD_REQUEST_def)
  show ?thesis
    using shape not_found mismatch by blast
qed

theorem error_detail_shape_witness:
  "''nonexistent'' \<notin> dom (Map.empty :: storage) \<and>
   snd (delete_keys Map.empty ''nonexistent'') =
     \<lparr>response_status = 404,
      response_body =
        PDict [(''detail'',
                PDict [(''success'', PBool False),
                       (''error'', PStr ''Key 'nonexistent' not found'')])]\<rparr> \<and>
   ''pathkey'' \<noteq> model_key \<lparr>model_key = ''bodykey'', model_value = PStr ''testvalue''\<rparr> \<and>
   snd (put_keys Map.empty ''pathkey''
          \<lparr>model_key = ''bodykey'', model_value = PStr ''testvalue''\<rparr>) =
     \<lparr>response_status = 400,
      response_body =
        PDict [(''detail'',
                PDict [(''success'', PBool False),
                       (''error'',
                        PStr (''Key in path 'pathkey' does not match key in body '' @
                              [CHR 0x27] @ ''bodykey'' @ [CHR 0x27]))])]\<rparr>"
  using error_detail_shape [of _ "''nonexistent''" Map.empty "''pathkey''"
      "\<lparr>model_key = ''bodykey'', model_value = PStr ''testvalue''\<rparr>"]
  by simp

subsection \<open>Create and update\<close>

text \<open>
  C6. For every key and body, \<open>store_key\<close> (POST) and \<open>update_key\<close> (PUT) leave the
  same dictionary and have the same outcome; on success both return
  \<^verbatim>\<open>{"success": true, "message": "Value stored successfully"}\<close>, with status 201 for
  POST and 200 for PUT, and on a key mismatch both answer 400 with the same body.
\<close>

theorem store_update_equivalent:
  "update_key s key data = store_key s key data \<and>
   fst (put_keys s key data) = fst (post_keys s key data) \<and>
   snd (post_keys s key data) =
     (if key \<noteq> model_key data
      then \<lparr>response_status = 400,
            response_body = PDict [(''detail'', detail (KeyMismatchError key (model_key data)))]\<rparr>
      else \<lparr>response_status = 201,
            response_body = PDict [(''success'', PBool True),
                                   (''message'', PStr ''Value stored successfully'')]\<rparr>) \<and>
   snd (put_keys s key data) =
     (if key \<noteq> model_key data
      then \<lparr>response_status = 400,
            response_body = PDict [(''detail'', detail (KeyMismatchError key (model_key data)))]\<rparr>
      else \<lparr>response_status = 200,
            response_body = PDict [(''success'', PBool True),
                                   (''message'', PStr ''Value stored successfully'')]\<rparr>)"
  by (simp add: store_key_def update_key_def post_keys_def put_keys_def render_def
      HTTP_200_OK_def HTTP_201_CREATED_def HTTP_400_BAD_REQUEST_def)

subsection \<open>A stored null\<close>

text \<open>
  C7. For every key \<open>k\<close>, the request model accepts the value \<^verbatim>\<open>None\<close> (JSON null),
  whatever the recursion budget; after a write of it, \<open>get_key k\<close> returns the
  success dictionary with value \<^verbatim>\<open>None\<close> (status 200), while on the dictionary without
  \<open>k\<close> it raises \<open>KeyNotFoundError\<close> (status 404): presence is membership in the
  dictionary, whatever the stored value.
\<close>

theorem null_value_is_present:
  "ValueModel_init b k PNone = Inr \<lparr>model_key = k, model_value = PNone\<rparr> \<and>
   get_key (fst (store_key s k \<lparr>model_key = k, model_value = PNone\<rparr>)) k =
     (s(k \<mapsto> PNone),
      Inr (PDict [(''success'', PBool True), (''key'', PStr k), (''value'', PNone)])) \<and>
   get_key (fst (update_key s k \<lparr>model_key = k, model_value = PNone\<rparr>)) k =
     (s(k \<mapsto> PNone),
      Inr (PDict [(''success'', PBool True), (''key'', PStr k), (''value'', PNone)])) \<and>
   response_status (snd (get_keys (s(k \<mapsto> PNone)) k)) = 200 \<and>
   get_key (s(k := None)) k = (s(k := None), Inl (KeyNotFoundError k)) \<and>
   response_status (snd (get_keys (s(k := None)) k)) = 404"
  by (simp add: ValueModel_init_def validate_json_serializable_def store_key_def
      update_key_def get_key_def get_keys_def render_def HTTP_200_OK_def
      HTTP_404_NOT_FOUND_def)

subsection \<open>Frame\<close>

text \<open>
  C8. \<open>get_key k\<close> returns the dictionary it was given, whether \<open>k\<close> is in it or not;
  and a write to \<open>k\<close> (\<open>store_key\<close>, \<open>update_key\<close>) and \<open>delete_key k\<close> leave the
  binding of every other key \<open>k'\<close> as it was.
\<close>

theorem frame_effect:
  assumes "k' \<noteq> k"
  shows "fst (get_key s k) = s \<and>
         fst (get_keys s k) = s \<and>
         fst (store_key s k data) k' = s k' \<and>
         fst (update_key s k data) k' = s k' \<and>
         fst (delete_key s k) k' = s k'"
  using assms
  by (auto simp add: get_key_def get_keys_def store_key_def update_key_def delete_key_def
      split: option.split)

theorem frame_effect_witness:
  "''b'' \<noteq> ''a'' \<and>
   fst (get_key [''a'' \<mapsto> PInt 1, ''b'' \<mapsto> PInt 2] ''a'') = [''a'' \<mapsto> PInt 1, ''b'' \<mapsto> PInt 2] \<and>
   fst (store_key [''a'' \<mapsto> PInt 1, ''b'' \<mapsto> PInt 2] ''a''
          \<lparr>model_key = ''a'', model_value = PInt 3\<rparr>) ''b'' = Some (PInt 2) \<and>
   fst (delete_key [''a'' \<mapsto> PInt 1, ''b'' \<mapsto> PInt 2] ''a'') ''b'' = Some (PInt 2)"
  using frame_effect [of "''b''" "''a''" "[''a'' \<mapsto> PInt 1, ''b'' \<mapsto> PInt 2]"
      "\<lparr>model_key = ''a'', model_value = PInt 3\<rparr>"]
  by simp

subsection \<open>The empty key\<close>

text \<open>
  C10. No handler and no field of the request model rejects the empty key: for every
  JSON-representable value \<open>v\<close> (one on which \<^verbatim>\<open>json.dumps\<close> returns, whatever
  the recursion budget \<open>b\<close>), the request model for the empty key and \<open>v\<close> is
  accepted, \<open>store_key\<close> with the empty path key returns the success dictionary and
  binds the empty key to \<open>v\<close>, \<open>get_key\<close> then returns \<open>v\<close> and \<open>delete_key\<close> removes
  the binding; on a dictionary without the empty key both raise the
  \<open>KeyNotFoundError\<close> of any absent key. No \<open>KeyMismatchError\<close> or
  \<open>ValidationError\<close> arises.
\<close>

theorem empty_key_accepted:
  assumes "json_serializable b v"
  shows "ValueModel_init b [] v = Inr \<lparr>model_key = [], model_value = v\<rparr> \<and>
         store_key s [] \<lparr>model_key = [], model_value = v\<rparr> =
           (s([] \<mapsto> v),
            Inr (PDict [(''success'', PBool True),
                        (''message'', PStr ''Value stored successfully'')])) \<and>
         get_key (s([] \<mapsto> v)) [] =
           (s([] \<mapsto> v),
            Inr (PDict [(''success'', PBool True), (''key'', PStr []), (''value'', v)])) \<and>
         delete_key (s([] \<mapsto> v)) [] =
           (s([] := None),
            Inr (PDict [(''success'', PBool True),
                        (''message'', PStr ''Key deleted successfully'')])) \<and>
         get_key (s([] := None)) [] = (s([] := None), Inl (KeyNotFoundError [])) \<and>
         delete_key (s([] := None)) [] = (s([] := None), Inl (KeyNotFoundError []))"
  using assms
  by (simp add: json_serializable_def ValueModel_init_def validate_json_serializable_def
      store_key_def get_key_def delete_key_def)

theorem empty_key_accepted_witness:
  "json_serializable 100 (PList [PInt 1, PStr ''three'']) \<and>
   ValueModel_init 100 [] (PList [PInt 1, PStr ''three'']) =
     Inr \<lparr>model_key = [], model_value = PList [PInt 1, PStr ''three'']\<rparr> \<and>
   store_key Map.empty [] \<lparr>model_key = [], model_value = PList [PInt 1, PStr ''three'']\<rparr> =
     ([[] \<mapsto> PList [PInt 1, PStr ''three'']],
      Inr (PDict [(''success'', PBool True), (''message'', PStr ''Value stored successfully'')])) \<and>
   get_key [[] \<mapsto> PList [PInt 1, PStr ''three'']] [] =
     ([[] \<mapsto> PList [PInt 1, PStr ''three'']],
      Inr (PDict [(''success'', PBool True), (''key'', PStr []),
                  (''value'', PList [PInt 1, PStr ''three''])]))"
  using empty_key_accepted [of 100
      "PList [PInt 1, PStr ''three'']" Map.empty]
  by (simp add: json_serializable_def int_repr_raises_def int_max_str_digits_def
      decimal_digits.simps)

end
